theory Spec2Isabelle
  imports Complex_Main
begin

section \<open>Python strings\<close>

text \<open>
  A Python \<^verbatim>\<open>str\<close> is modelled as a \<^typ>\<open>string\<close> whose characters are the code
  points below 256.  Among them Python's \<^verbatim>\<open>str.isspace\<close> holds for the code points
  9 to 13, 28 to 32, 133 and 160; \<^verbatim>\<open>strip()\<close> and \<^verbatim>\<open>split()\<close> without a separator use
  that same set.
\<close>

definition isspace :: "char \<Rightarrow> bool" where
  "isspace c = (of_char c \<in> {9, 10, 11, 12, 13, 28, 29, 30, 31, 32, 133, 160 :: nat})"

text \<open>\<^verbatim>\<open>s.strip()\<close>\<close>

definition strip :: "string \<Rightarrow> string" where
  "strip s = rev (dropWhile isspace (rev (dropWhile isspace s)))"

text \<open>\<^verbatim>\<open>s.startswith(p)\<close>\<close>

definition startswith :: "string \<Rightarrow> string \<Rightarrow> bool" where
  "startswith s p = (take (length p) s = p)"

text \<open>
  \<^verbatim>\<open>s.split(maxsplit=n)\<close>: runs of whitespace separate the words, leading whitespace
  is skipped, and after \<open>n\<close> words the remainder (leading whitespace skipped, trailing
  whitespace kept) is the last element.
\<close>

fun split_maxsplit :: "nat \<Rightarrow> string \<Rightarrow> string list" where
  "split_maxsplit 0 s =
     (let r = dropWhile isspace s in if r = [] then [] else [r])"
| "split_maxsplit (Suc n) s =
     (let r = dropWhile isspace s in
      if r = [] then []
      else takeWhile (\<lambda>c. \<not> isspace c) r
             # split_maxsplit n (dropWhile (\<lambda>c. \<not> isspace c) r))"

text \<open>
  \<^verbatim>\<open>s.split()\<close>: no bound on the number of words.  Every word takes at least one
  character, so \<open>length s\<close> splits are never used up.
\<close>

definition split_all :: "string \<Rightarrow> string list" where
  "split_all s = split_maxsplit (length s) s"

text \<open>\<^verbatim>\<open>a, b = s.split(c, 1)\<close>, called by the source only where \<^verbatim>\<open>c in s\<close>.\<close>

definition split_once :: "char \<Rightarrow> string \<Rightarrow> string \<times> string" where
  "split_once c s = (takeWhile (\<lambda>x. x \<noteq> c) s, drop 1 (dropWhile (\<lambda>x. x \<noteq> c) s))"

text \<open>\<^verbatim>\<open>s.split(c)\<close> with a one-character separator.\<close>

fun split_on :: "char \<Rightarrow> string \<Rightarrow> string list" where
  "split_on c [] = [[]]"
| "split_on c (x # xs) =
     (if x = c then [] # split_on c xs
      else (case split_on c xs of [] \<Rightarrow> [[x]] | y # ys \<Rightarrow> (x # y) # ys))"

text \<open>\<^verbatim>\<open>sep.join(xs)\<close>\<close>

fun join :: "string \<Rightarrow> string list \<Rightarrow> string" where
  "join sep [] = []"
| "join sep [x] = x"
| "join sep (x # y # ys) = x @ sep @ join sep (y # ys)"

text \<open>
  \<^verbatim>\<open>s.lower()\<close> on code points below 256: the letters A to Z and the capital letters
  of the Latin-1 block (192 to 222 but the multiplication sign 215) move up by 32.
\<close>

definition lower_char :: "char \<Rightarrow> char" where
  "lower_char c =
     (let n = (of_char c :: nat) in
      if (65 \<le> n \<and> n \<le> 90) \<or> (192 \<le> n \<and> n \<le> 222 \<and> n \<noteq> 215)
      then char_of (n + 32) else c)"

definition str_lower :: "string \<Rightarrow> string" where
  "str_lower s = map lower_char s"

text \<open>The apostrophe, which a string literal cannot end with.\<close>

abbreviation apostrophe :: string where
  "apostrophe \<equiv> [CHR 0x27]"

section \<open>Python dictionaries that keep their insertion order\<close>

text \<open>
  \<^verbatim>\<open>d.get(k, default)\<close>, \<^verbatim>\<open>d[k] = v\<close> (an existing key keeps its place, a new
  key goes last) and \<^verbatim>\<open>d.pop(k, None)\<close> on an association list.
\<close>

definition dict_get :: "('k \<times> 'v) list \<Rightarrow> 'k \<Rightarrow> 'v \<Rightarrow> 'v" where
  "dict_get d k dflt = (case map_of d k of None \<Rightarrow> dflt | Some v \<Rightarrow> v)"

fun dict_set :: "'k \<Rightarrow> 'v \<Rightarrow> ('k \<times> 'v) list \<Rightarrow> ('k \<times> 'v) list" where
  "dict_set k v [] = [(k, v)]"
| "dict_set k v (p # r) = (if fst p = k then (k, v) # r else p # dict_set k v r)"

definition dict_pop :: "'k \<Rightarrow> ('k \<times> 'v) list \<Rightarrow> ('k \<times> 'v) list" where
  "dict_pop k d = filter (\<lambda>p. fst p \<noteq> k) d"

section \<open>The state of the module and what it does to the outside\<close>

text \<open>
  A background job: the target of a \<^verbatim>\<open>threading.Thread(...).start()\<close>, with its
  arguments.  The dispatcher starts the job and does not wait for it.
\<close>

datatype action =
    SpeakOfflineLocal string
  | TtsOpenaiOnline string string string
  | PlayAudioBlocking string
  | PlayBoth string string
  | RingBell "string list" bool
  | RingAssemblyBell nat

text \<open>
  Every call that leaves the dispatcher, in the order the calls are made:
  \<^verbatim>\<open>send_whatsapp_text(to, text)\<close>, a thread start, the two media calls, and the
  writes and reloads of the settings commands.
\<close>

datatype event =
    SendText string string
  | ThreadStart action
  | GetMediaUrl "string option"
  | DownloadMediaFile string "string option" "string option"
  | SaveWaConfig string string
  | LoadWaConfig
  | WriteOpenaiKey string
  | InitOpenaiClient

text \<open>An entry of \<^verbatim>\<open>SESSIONS\<close>: \<^verbatim>\<open>{"expect": ..., "data": ..., "ts": ...}\<close>.\<close>

record session =
  expect :: string
  data :: "(string \<times> string) list"
  ts :: real

text \<open>
  The module's globals the dispatcher reads and writes, and the log of its calls.
  \<^verbatim>\<open>time.time()\<close> is a real number of seconds.
\<close>

record state =
  SESSIONS :: "string \<rightharpoonup> session"
  AUTH_USERS :: "string \<rightharpoonup> string"
  BELL_SCHEDULES :: "(string \<times> string list) list"
  events :: "event list"

text \<open>
  An exception of the interpreter or of a library, by the name of its class
  (\<open>RequestException\<close>: what \<^verbatim>\<open>requests.get\<close> raises when the network fails).
\<close>

datatype py_error =
  KeyError | IndexError | TypeError | RequestException | JSONDecodeError | OSError

text \<open>
  What the outside gives back while one message is handled.
  \<^item> \<open>now_get\<close>, \<open>now_set\<close>: the clock as \<^verbatim>\<open>get_session\<close> and as \<^verbatim>\<open>set_session\<close> read it.
  \<^item> \<open>ACCESS_TOKEN\<close>: the module's global of that name as the media call reads it.  It
    comes from the file \<^verbatim>\<open>wa_config.txt\<close>, which is outside the model.
  \<^item> \<open>meta_get\<close>: \<^verbatim>\<open>requests.get\<close> on the metadata address of a media id.  It raises
    (\<open>Inl\<close>), or there is a response: its status code and what \<^verbatim>\<open>r.json()\<close> with the
    two \<^verbatim>\<open>j.get\<close> gives, which is again an exception or the fields \<^verbatim>\<open>url\<close> and
    \<^verbatim>\<open>mime_type\<close> (\<open>None\<close> when absent).
  \<^item> \<open>file_get\<close>: \<^verbatim>\<open>requests.get\<close> on the download address.  It raises, or there is a
    response: its status code and the exception, if any, that writing the body to the
    local file raises.
\<close>

record world =
  now_get :: real
  now_set :: real
  ACCESS_TOKEN :: "string option"
  meta_get :: "string option \<Rightarrow> py_error + nat \<times> (py_error + string option \<times> string option)"
  file_get :: "string \<Rightarrow> py_error + nat \<times> py_error option"

text \<open>
  An inbound message: \<^verbatim>\<open>msg.get("from")\<close>, \<^verbatim>\<open>msg.get("type")\<close>, the body under
  \<^verbatim>\<open>"text"\<close> and the id under \<^verbatim>\<open>"audio"\<close>, each \<open>None\<close> when the key is absent.
\<close>

record message =
  msg_from :: "string option"
  msg_type :: "string option"
  text_body :: "string option"
  audio_id :: "string option"

text \<open>
  What a handler gives: \<open>Inr st\<close> when it returns, the module's state being \<open>st\<close>, and
  \<open>Inl (e, st)\<close> when the exception \<open>e\<close> escapes from it, the module's state being \<open>st\<close>
  at that moment.  A handler runs in a thread of its own, so an exception ends that
  thread and nothing more is done for the message.
\<close>

type_synonym outcome = "(py_error \<times> state) + state"

subsection \<open>Roles\<close>

definition get_role :: "state \<Rightarrow> string \<Rightarrow> string" where
  "get_role st number = (case AUTH_USERS st number of None \<Rightarrow> ''teacher'' | Some r \<Rightarrow> r)"

subsection \<open>Session store\<close>

definition set_session :: "real \<Rightarrow> string \<Rightarrow> string \<Rightarrow> (string \<times> string) list \<Rightarrow> state \<Rightarrow> state" where
  "set_session now sender st_tag d st =
     st\<lparr>SESSIONS := (SESSIONS st)(sender \<mapsto> \<lparr>expect = st_tag, data = d, ts = now\<rparr>)\<rparr>"

definition clear_session :: "string \<Rightarrow> state \<Rightarrow> state" where
  "clear_session sender st =
     (if SESSIONS st sender \<noteq> None then st\<lparr>SESSIONS := (SESSIONS st)(sender := None)\<rparr> else st)"

definition get_session :: "real \<Rightarrow> string \<Rightarrow> state \<Rightarrow> state \<times> session option" where
  "get_session now sender st =
     (case SESSIONS st sender of
        None \<Rightarrow> (st, None)
      | Some s \<Rightarrow> if now - ts s > 300 then (clear_session sender st, None) else (st, Some s))"

subsection \<open>The calls that leave the dispatcher\<close>

text \<open>
  The dispatcher ignores what \<^verbatim>\<open>send_whatsapp_text\<close> returns, so a reply is the call
  itself, logged with its two arguments; whether the text is posted depends on the
  credentials and on the platform.  The two media functions ask the platform over HTTP:
  the call is logged, and what they return or raise follows the source on the world's
  responses.  The post inside \<^verbatim>\<open>send_whatsapp_text\<close> is taken to return.
\<close>

definition send_whatsapp_text :: "string \<Rightarrow> string \<Rightarrow> state \<Rightarrow> state" where
  "send_whatsapp_text to_number txt st = st\<lparr>events := events st @ [SendText to_number txt]\<rparr>"

definition thread_start :: "action \<Rightarrow> state \<Rightarrow> state" where
  "thread_start a st = st\<lparr>events := events st @ [ThreadStart a]\<rparr>"

text \<open>\<^verbatim>\<open>sub in s\<close> on strings.\<close>

fun str_contains :: "string \<Rightarrow> string \<Rightarrow> bool" where
  "str_contains [] sub = (sub = [])"
| "str_contains (c # cs) sub = (startswith (c # cs) sub \<or> str_contains cs sub)"

text \<open>
  \<^verbatim>\<open>get_media_url(media_id)\<close>: without a token no request is made; a request that
  raises, or a body that is not the expected JSON, lets the exception escape; a status
  other than 200 gives \<^verbatim>\<open>(None, None)\<close>.
\<close>

definition get_media_url ::
  "world \<Rightarrow> string option \<Rightarrow> state \<Rightarrow>
   (py_error \<times> state) + (state \<times> string option \<times> string option)" where
  "get_media_url w media_id st =
     (let st1 = st\<lparr>events := events st @ [GetMediaUrl media_id]\<rparr> in
      if ACCESS_TOKEN w = None \<or> ACCESS_TOKEN w = Some [] then Inr (st1, None, None)
      else
        (case meta_get w media_id of
           Inl e \<Rightarrow> Inl (e, st1)
         | Inr (status_code, j) \<Rightarrow>
             if status_code = 200 then
               (case j of
                  Inl e \<Rightarrow> Inl (e, st1)
                | Inr (url, mime_type) \<Rightarrow> Inr (st1, url, mime_type))
             else Inr (st1, None, None)))"

text \<open>
  \<^verbatim>\<open>download_media_file(url, media_id, mime_type)\<close>: the request may raise; on status
  200 the test \<^verbatim>\<open>"ogg" in mime_type\<close> raises \<open>TypeError\<close> when \<^verbatim>\<open>mime_type\<close> is \<open>None\<close>,
  and writing the file may raise; the path is \<^verbatim>\<open>wa_media_\<close>, the id as \<^verbatim>\<open>str\<close> prints it
  and the extension.  Any other status gives \<open>None\<close>.
\<close>

definition download_media_file ::
  "world \<Rightarrow> string \<Rightarrow> string option \<Rightarrow> string option \<Rightarrow> state \<Rightarrow>
   (py_error \<times> state) + (state \<times> string option)" where
  "download_media_file w url media_id mime_type st =
     (let st1 = st\<lparr>events := events st @ [DownloadMediaFile url media_id mime_type]\<rparr> in
      case file_get w url of
        Inl e \<Rightarrow> Inl (e, st1)
      | Inr (status_code, written) \<Rightarrow>
          if status_code = 200 then
            (case mime_type of
               None \<Rightarrow> Inl (TypeError, st1)
             | Some m \<Rightarrow>
                 (let ext = (if str_contains m ''ogg'' then ''.ogg''
                             else if str_contains m ''mpeg'' then ''.mp3'' else ''.bin'');
                      out = ''wa_media_'' @ (case media_id of None \<Rightarrow> ''None'' | Some i \<Rightarrow> i)
                              @ ext
                  in case written of
                       Some e \<Rightarrow> Inl (e, st1)
                     | None \<Rightarrow> Inr (st1, Some out)))
          else Inr (st1, None))"

subsection \<open>The schedule store and the assembly files (the module's local stubs)\<close>

definition get_schedule :: "state \<Rightarrow> string \<Rightarrow> string list" where
  "get_schedule st name = dict_get (BELL_SCHEDULES st) name []"

definition list_schedule_names :: "state \<Rightarrow> string list" where
  "list_schedule_names st = map fst (BELL_SCHEDULES st)"

definition update_schedule :: "string \<Rightarrow> string list \<Rightarrow> state \<Rightarrow> state" where
  "update_schedule name tms st = st\<lparr>BELL_SCHEDULES := dict_set name tms (BELL_SCHEDULES st)\<rparr>"

definition delete_schedule :: "string \<Rightarrow> state \<Rightarrow> state" where
  "delete_schedule n st = st\<lparr>BELL_SCHEDULES := dict_pop n (BELL_SCHEDULES st)\<rparr>"

text \<open>\<^verbatim>\<open>BELL_SCHEDULES[n] = BELL_SCHEDULES.pop(o)\<close>: the pop raises on a missing key.\<close>

definition rename_schedule :: "string \<Rightarrow> string \<Rightarrow> state \<Rightarrow> py_error + state" where
  "rename_schedule old new st =
     (case map_of (BELL_SCHEDULES st) old of
        None \<Rightarrow> Inl KeyError
      | Some v \<Rightarrow> Inr (st\<lparr>BELL_SCHEDULES := dict_set new v (dict_pop old (BELL_SCHEDULES st))\<rparr>))"

definition ABOUT_US_TEXT :: string where
  "ABOUT_US_TEXT =
     ''JOTHI - School Bell System\<newline>\<newline>'' @
     ''This project is built as a tribute and a practical school bell/announcement system.''"

definition get_today_assembly_config :: "(string \<times> string) list" where
  "get_today_assembly_config =
     [(''label'', ''English Day''), (''prayer'', ''english_prayer.mp3''),
      (''birthday'', ''english_birthday.mp3'')]"

definition NATIONAL_ANTHEM_FILE :: string where
  "NATIONAL_ANTHEM_FILE = ''national_anthem.mp3''"

definition EXTRA1_FILE :: "string option" where
  "EXTRA1_FILE = None"

definition EXTRA2_FILE :: "string option" where
  "EXTRA2_FILE = None"

text \<open>\<^verbatim>\<open>cfg[k]\<close>, which raises on a missing key.\<close>

definition dict_index :: "('k \<times> 'v) list \<Rightarrow> 'k \<Rightarrow> py_error + 'v" where
  "dict_index d k = (case map_of d k of None \<Rightarrow> Inl KeyError | Some v \<Rightarrow> Inr v)"

section \<open>Continuing a session: \<^verbatim>\<open>handle_session_message\<close>\<close>

definition model_map :: "(string \<times> string) list" where
  "model_map = [(''1'', ''alloy''), (''2'', ''nova''), (''3'', ''onyx''), (''4'', ''offline'')]"

text \<open>The closure \<^verbatim>\<open>run_announce\<close>, as the job it runs.\<close>

definition run_announce :: "string \<Rightarrow> string \<Rightarrow> action" where
  "run_announce model announce_text =
     (if model = ''offline'' then SpeakOfflineLocal announce_text
      else TtsOpenaiOnline announce_text model (''announce_'' @ model @ ''.mp3''))"

definition handle_session_message ::
  "world \<Rightarrow> string \<Rightarrow> session \<Rightarrow> message \<Rightarrow> state \<Rightarrow> outcome" where
  "handle_session_message w sender sess msg st =
     (if expect sess = ''announce_model'' then
        (if msg_type msg \<noteq> Some ''text'' then
           Inr (send_whatsapp_text sender ''Please send model number 1/2/3/4 as text.'' st)
         else
           (let choice = strip (case text_body msg of None \<Rightarrow> [] | Some b \<Rightarrow> b) in
            if choice \<notin> set [''1'', ''2'', ''3'', ''4''] then
              Inr (send_whatsapp_text sender ''Invalid choice. Send 1,2,3 or 4.'' st)
            else
              (case dict_index model_map choice of
                 Inl e \<Rightarrow> Inl (e, st)
               | Inr model \<Rightarrow>
                   (let announce_text = dict_get (data sess) ''announce_text'' [] in
                    Inr (clear_session sender
                          (send_whatsapp_text sender (''Announcement played using model '' @ choice)
                            (thread_start (run_announce model announce_text) st)))))))
      else if expect sess = ''announce_wait_voice'' then
        (if msg_type msg \<noteq> Some ''audio'' then
           Inr (send_whatsapp_text sender ''Please send a voice note (audio message).'' st)
         else
           (let media_id = audio_id msg in
            case get_media_url w media_id st of
              Inl x \<Rightarrow> Inl x
            | Inr (st1, url, mime) \<Rightarrow>
                (let no_url =
                       Inr (clear_session sender
                             (send_whatsapp_text sender ''Failed to get media URL.'' st1))
                 in case url of
                      None \<Rightarrow> no_url
                    | Some u \<Rightarrow>
                        if u = [] then no_url
                        else
                          (case download_media_file w u media_id mime st1 of
                             Inl x \<Rightarrow> Inl x
                           | Inr (st2, path) \<Rightarrow>
                               (let no_path =
                                      Inr (clear_session sender
                                            (send_whatsapp_text sender
                                               ''Failed to download voice.'' st2))
                                in case path of
                                     None \<Rightarrow> no_path
                                   | Some p \<Rightarrow>
                                       if p = [] then no_path
                                       else
                                         Inr (clear_session sender
                                               (send_whatsapp_text sender
                                                  ''Voice announcement received and played.''
                                                  (thread_start (PlayAudioBlocking p) st2))))))))
      else
        Inr (clear_session sender (send_whatsapp_text sender ''Session expired or unknown.'' st)))"

section \<open>Slash commands: \<^verbatim>\<open>handle_slash_command\<close>\<close>

text \<open>
  The source function is one chain of \<^verbatim>\<open>if ...: ...; return\<close> blocks.  Each block is a
  definition below, in the order of the source, and \<open>handle_slash_command\<close> chains
  them.  In every block \<open>lower\<close> is the source's variable of that name, which holds
  \<^verbatim>\<open>body.strip()\<close>.
\<close>

text \<open>\<^verbatim>\<open>/help\<close>: the reply of a known role; any other role falls through.\<close>

definition help_reply :: "string \<Rightarrow> string option" where
  "help_reply role =
     (if role = ''teacher'' then
        Some (''JOTHI Commands (Teacher):\<newline>/bellmode - Bell options\<newline>'' @
              ''/assembly - Assembly playback\<newline>/about - About us'')
      else if role = ''admin'' then
        Some (''JOTHI Commands (Admin):\<newline>/announcement - Make announcement\<newline>'' @
              ''/about - About us'')
      else if role = ''developer'' then
        Some (''JOTHI Commands (Developer):\<newline>/bellmode\<newline>/assembly\<newline>'' @
              ''/announcement\<newline>/settings\<newline>/about'')
      else None)"

text \<open>\<^verbatim>\<open>/bellmode\<close> (teacher and developer).\<close>

definition bellmode_command ::
  "world \<Rightarrow> string \<Rightarrow> string \<Rightarrow> string \<Rightarrow> state \<Rightarrow> outcome" where
  "bellmode_command w sender lower role st =
     (if role \<notin> set [''teacher'', ''developer''] then
        Inr (send_whatsapp_text sender ''Not allowed.'' st)
      else
        (case split_maxsplit 2 lower of
           [] \<Rightarrow> Inl (IndexError, st)
         | [p0] \<Rightarrow>
             Inr (send_whatsapp_text sender
                   (''Bell commands:\<newline>/bellmode today - set today's times\<newline>'' @
                    ''/bellmode use <name> - use saved schedule'') st)
         | p0 # p1 # rest \<Rightarrow>
             if p1 = ''today'' then
               Inr (set_session (now_set w) sender ''bell_today_input'' []
                     (send_whatsapp_text sender
                       (''Send times for TODAY as comma separated HH:MM values. '' @
                        ''Example: 09:00,10:30,12:00'') st))
             else if p1 = ''use'' \<and> rest \<noteq> [] then
               (let name = strip (hd rest);
                    sched = get_schedule st name
                in if sched = [] then
                     Inr (send_whatsapp_text sender
                           (''Schedule '' @ apostrophe @ name @ apostrophe @ '' not found.'') st)
                   else
                     Inr (send_whatsapp_text sender
                           (''Started schedule '' @ apostrophe @ name @ apostrophe)
                           (thread_start (RingBell sched False) st)))
             else Inr (send_whatsapp_text sender ''Unknown bellmode command.'' st)))"

text \<open>\<^verbatim>\<open>/assembly\<close> (teacher and developer).\<close>

definition play_cfg :: "string \<Rightarrow> string \<Rightarrow> string \<Rightarrow> state \<Rightarrow> outcome" where
  "play_cfg sender k reply st =
     (case dict_index get_today_assembly_config k of
        Inl e \<Rightarrow> Inl (e, st)
      | Inr f \<Rightarrow> Inr (send_whatsapp_text sender reply (thread_start (PlayAudioBlocking f) st)))"

definition play_extra :: "string \<Rightarrow> string option \<Rightarrow> string \<Rightarrow> string \<Rightarrow> state \<Rightarrow> state" where
  "play_extra sender file playing not_set st =
     (case file of
        None \<Rightarrow> send_whatsapp_text sender not_set st
      | Some f \<Rightarrow>
          if f = [] then send_whatsapp_text sender not_set st
          else send_whatsapp_text sender playing (thread_start (PlayAudioBlocking f) st))"

definition assembly_command ::
  "string \<Rightarrow> string \<Rightarrow> string \<Rightarrow> state \<Rightarrow> outcome" where
  "assembly_command sender lower role st =
     (if role \<notin> set [''teacher'', ''developer''] then
        Inr (send_whatsapp_text sender ''Not allowed.'' st)
      else
        (case split_all lower of
           [] \<Rightarrow> Inl (IndexError, st)
         | [p0] \<Rightarrow>
             Inr (send_whatsapp_text sender
                   (''Assembly commands: /assembly <n>\<newline>1=Prayer,2=Birthday,3=Anthem,'' @
                    ''4=Extra1,5=Extra2,6=Bell(5s),11=Prayer+Birthday'') st)
         | p0 # cmd # rest \<Rightarrow>
             if cmd = ''1'' then play_cfg sender ''prayer'' ''Playing prayer.'' st
             else if cmd = ''2'' then play_cfg sender ''birthday'' ''Playing birthday song.'' st
             else if cmd = ''3'' then
               Inr (send_whatsapp_text sender ''Playing national anthem.''
                     (thread_start (PlayAudioBlocking NATIONAL_ANTHEM_FILE) st))
             else if cmd = ''4'' then
               Inr (play_extra sender EXTRA1_FILE ''Playing Extra 1.'' ''Extra 1 not set.'' st)
             else if cmd = ''5'' then
               Inr (play_extra sender EXTRA2_FILE ''Playing Extra 2.'' ''Extra 2 not set.'' st)
             else if cmd = ''6'' then
               Inr (send_whatsapp_text sender ''Rung assembly bell for 5 seconds.''
                     (thread_start (RingAssemblyBell 5) st))
             else if cmd = ''11'' then
               (case dict_index get_today_assembly_config ''prayer'' of
                  Inl e \<Rightarrow> Inl (e, st)
                | Inr pr \<Rightarrow>
                    (case dict_index get_today_assembly_config ''birthday'' of
                       Inl e \<Rightarrow> Inl (e, st)
                     | Inr bd \<Rightarrow>
                         Inr (send_whatsapp_text sender ''Played prayer + birthday.''
                               (thread_start (PlayBoth pr bd) st))))
             else Inr (send_whatsapp_text sender ''Unknown assembly option.'' st)))"

text \<open>\<^verbatim>\<open>/announcement\<close> and \<^verbatim>\<open>/announce\<close> (admin and developer).\<close>

definition announce_command ::
  "world \<Rightarrow> string \<Rightarrow> string \<Rightarrow> string \<Rightarrow> state \<Rightarrow> outcome" where
  "announce_command w sender lower role st =
     (if role \<notin> set [''admin'', ''developer''] then
        Inr (send_whatsapp_text sender ''Not allowed.'' st)
      else
        (let usage =
               Inr (send_whatsapp_text sender
                     (''Announcement usage:\<newline>/announce text <message>\<newline>'' @
                      ''/announce voice'') st)
         in case split_maxsplit 2 lower of
              p0 # p1 # rest \<Rightarrow>
                if p1 = ''text'' then
                  (let msg = (case rest of [] \<Rightarrow> [] | m # _ \<Rightarrow> m) in
                   if msg = [] then
                     Inr (send_whatsapp_text sender ''Usage: /announce text <your message>'' st)
                   else
                     Inr (send_whatsapp_text sender
                           (''Choose voice model for announcement:\<newline>'' @
                            ''1. Alloy (online)\<newline>2. Nova (online)\<newline>'' @
                            ''3. Onyx (online)\<newline>4. Offline local\<newline>'' @
                            ''Send 1/2/3/4 now.'')
                           (set_session (now_set w) sender ''announce_model''
                              [(''announce_text'', msg)] st)))
                else if p1 = ''voice'' then
                  Inr (send_whatsapp_text sender
                        (''Please send the voice note now '' @
                         ''(record & send voice message in WhatsApp).'')
                        (set_session (now_set w) sender ''announce_wait_voice'' [] st))
                else usage
            | _ \<Rightarrow> usage))"

text \<open>
  \<^verbatim>\<open>/settings\<close> (developer only).  The files the two subcommands write and the
  clients they reload are outside the dispatcher: the calls are logged.
\<close>

definition settings_command ::
  "string \<Rightarrow> string \<Rightarrow> string \<Rightarrow> state \<Rightarrow> outcome" where
  "settings_command sender lower role st =
     (if role \<noteq> ''developer'' then
        Inr (send_whatsapp_text sender ''Not allowed.'' st)
      else
        (case split_maxsplit 2 lower of
           [] \<Rightarrow> Inl (IndexError, st)
         | [p0] \<Rightarrow>
             Inr (send_whatsapp_text sender
                   (''Settings:\<newline>/settings setwa <PHONE_ID>|<ACCESS_TOKEN>\<newline>'' @
                    ''/settings setopenai <OPENAI_KEY>'') st)
         | p0 # sub # rest \<Rightarrow>
             if sub = ''setwa'' \<and> rest \<noteq> [] then
               (if CHR ''|'' \<notin> set (hd rest) then
                  Inr (send_whatsapp_text sender ''Use: /settings setwa PHONE_ID|ACCESS_TOKEN'' st)
                else
                  (let (phone_id, token) = split_once CHR ''|'' (hd rest) in
                   Inr (send_whatsapp_text sender ''WhatsApp config saved.''
                         (st\<lparr>events := events st @
                              [SaveWaConfig (strip phone_id) (strip token), LoadWaConfig]\<rparr>))))
             else if sub = ''setopenai'' \<and> rest \<noteq> [] then
               Inr (send_whatsapp_text sender ''OpenAI key saved & loaded.''
                     (st\<lparr>events := events st @
                          [WriteOpenaiKey (strip (hd rest)), InitOpenaiClient]\<rparr>))
             else Inr (send_whatsapp_text sender ''Unknown settings command.'' st)))"

text \<open>
  \<^verbatim>\<open>/schedule\<close>, entered by the source only when the role is developer (the test of
  the role is part of the block's condition, in \<open>handle_slash_command\<close> below).
\<close>

definition schedule_command :: "string \<Rightarrow> string \<Rightarrow> state \<Rightarrow> outcome" where
  "schedule_command sender lower st =
     (let parts = split_maxsplit 2 lower;
          cmd = (case parts of p0 # p1 # _ \<Rightarrow> p1 | _ \<Rightarrow> []);
          arg = (case parts of p0 # p1 # p2 # _ \<Rightarrow> Some p2 | _ \<Rightarrow> None);
          usage =
            Inr (send_whatsapp_text sender
                  ''Schedule commands for developer: list/create/rename/delete'' st)
      in if cmd = ''list'' then
           (let names = list_schedule_names st in
            Inr (send_whatsapp_text sender
                  (''Saved schedules: '' @ (if names \<noteq> [] then join '', '' names else ''(none)''))
                  st))
         else if cmd = ''create'' then
           (case arg of
              None \<Rightarrow> usage
            | Some a \<Rightarrow>
                if CHR ''|'' \<notin> set a then
                  Inr (send_whatsapp_text sender ''Use: /schedule create NAME|HH:MM,HH:MM'' st)
                else
                  (let (name, tms) = split_once CHR ''|'' a;
                       tms' = map strip (filter (\<lambda>t. strip t \<noteq> []) (split_on CHR '','' tms))
                   in Inr (send_whatsapp_text sender
                            (''Schedule '' @ apostrophe @ strip name @ apostrophe @ '' created.'')
                            (update_schedule (strip name) tms' st))))
         else if cmd = ''delete'' then
           (case arg of
              None \<Rightarrow> usage
            | Some a \<Rightarrow>
                Inr (send_whatsapp_text sender
                      (''Deleted schedule '' @ apostrophe @ strip a @ apostrophe @ ''.'')
                      (delete_schedule (strip a) st)))
         else if cmd = ''rename'' then
           (case arg of
              None \<Rightarrow> usage
            | Some a \<Rightarrow>
                if CHR ''|'' \<notin> set a then
                  Inr (send_whatsapp_text sender ''Use: /schedule rename OLD|NEW'' st)
                else
                  (let (old, new) = split_once CHR ''|'' a in
                   case rename_schedule (strip old) (strip new) st of
                     Inl e \<Rightarrow> Inl (e, st)
                   | Inr st1 \<Rightarrow>
                       Inr (send_whatsapp_text sender
                             (''Renamed '' @ apostrophe @ strip old @ apostrophe @ '' -> '' @
                              apostrophe @ strip new @ apostrophe) st1)))
         else usage)"

definition handle_slash_command ::
  "world \<Rightarrow> string \<Rightarrow> string \<Rightarrow> state \<Rightarrow> outcome" where
  "handle_slash_command w sender body st =
     (let lower = strip body;
          role = get_role st sender
      in case (if lower = ''/help'' then help_reply role else None) of
           Some reply \<Rightarrow> Inr (send_whatsapp_text sender reply st)
         | None \<Rightarrow>
             if startswith lower ''/about'' then
               Inr (send_whatsapp_text sender (take 1500 ABOUT_US_TEXT) st)
             else if startswith lower ''/bellmode'' then bellmode_command w sender lower role st
             else if startswith lower ''/assembly'' then assembly_command sender lower role st
             else if startswith lower ''/announcement'' \<or> startswith lower ''/announce'' then
               announce_command w sender lower role st
             else if startswith lower ''/settings'' then settings_command sender lower role st
             else if startswith lower ''/schedule'' \<and> role = ''developer'' then
               schedule_command sender lower st
             else Inr (send_whatsapp_text sender ''Unknown command. Type /help'' st))"

section \<open>The dispatcher: \<^verbatim>\<open>process_incoming_message\<close>\<close>

definition normalize_number :: "string option \<Rightarrow> string option" where
  "normalize_number n =
     (case n of
        None \<Rightarrow> None
      | Some s \<Rightarrow> if s = [] then Some s else if startswith s ''+'' then Some s else Some (''+'' @ s))"

definition process_incoming_message :: "world \<Rightarrow> message \<Rightarrow> state \<Rightarrow> outcome" where
  "process_incoming_message w msg st =
     (case normalize_number (msg_from msg) of
        None \<Rightarrow> Inr st
      | Some sender \<Rightarrow>
          if sender = [] then Inr st
          else
            (case get_session (now_get w) sender st of
               (st1, Some sess) \<Rightarrow> handle_session_message w sender sess msg st1
             | (st1, None) \<Rightarrow>
                 if msg_type msg = Some ''text'' then
                   (let body = strip (case text_body msg of None \<Rightarrow> [] | Some b \<Rightarrow> b) in
                    if \<not> startswith body ''/'' then
                      Inr (send_whatsapp_text sender
                            ''Welcome to JOTHI WhatsApp bot. Type /help to see commands.'' st1)
                    else handle_slash_command w sender body st1)
                 else if msg_type msg = Some ''audio'' then
                   Inr (send_whatsapp_text sender
                         (''To use a voice note for announcement, '' @
                          ''please send /announce voice first.'') st1)
                 else Inr (send_whatsapp_text sender ''Message type not supported. Use /help'' st1)))"

section \<open>The webhook verification handshake\<close>

text \<open>
  \<^verbatim>\<open>verify\<close> of whatsapp_integration.py and \<^verbatim>\<open>verify_webhook\<close> of whatsapp_server.py:
  the three query arguments (\<open>None\<close> when absent) against the configured
  \<^verbatim>\<open>VERIFY_TOKEN\<close>; the result is the view's return value, a body and a status.
\<close>

definition verify ::
  "string \<Rightarrow> string option \<Rightarrow> string option \<Rightarrow> string option \<Rightarrow> string option \<times> nat" where
  "verify VERIFY_TOKEN mode token chal =
     (if mode = Some ''subscribe'' \<and> token = Some VERIFY_TOKEN then (chal, 200)
      else (Some ''Forbidden'', 403))"

definition verify_webhook ::
  "string \<Rightarrow> string option \<Rightarrow> string option \<Rightarrow> string option \<Rightarrow> string option \<times> nat" where
  "verify_webhook VERIFY_TOKEN mode token challenge =
     (if mode = Some ''subscribe'' \<and> token = Some VERIFY_TOKEN then (challenge, 200)
      else (Some ''Forbidden'', 403))"

section \<open>The command handler of whatsapp_server.py\<close>

text \<open>\<^verbatim>\<open>handle_command(text, sender)\<close>: the reply it returns.\<close>

definition handle_command :: "string \<Rightarrow> string \<Rightarrow> string" where
  "handle_command txt sender =
     (let lower = strip (str_lower txt) in
      if lower \<in> set [''/help'', ''help''] then
        ''JOTHI Bot commands:\<newline>/help - show this message\<newline>'' @
        ''/announce <text> - announce (via offline voice)\<newline>'' @
        ''/schedule list - list saved schedules\<newline>/about - about JOTHI''
      else if startswith lower ''/announce '' then ''Announcement played.''
      else if startswith lower ''/schedule'' then
        (case split_all lower of
           c0 # c1 # _ \<Rightarrow>
             if c1 = ''list'' then ''Saved schedules: Regular Day''
             else ''Unknown schedule command.''
         | _ \<Rightarrow> ''Unknown schedule command.'')
      else if lower = ''/about'' \<or> lower = ''about'' then ''JOTHI Bot - School Bell System''
      else ''Unknown command. Type /help for commands.'')"

section \<open>Example states\<close>

text \<open>
  The module right after import with no \<^verbatim>\<open>authorized_numbers.txt\<close>, and a school with
  one number of each role.
\<close>

definition initial_state :: state where
  "initial_state =
     \<lparr>SESSIONS = Map.empty, AUTH_USERS = Map.empty,
      BELL_SCHEDULES = [(''Regular Day'', [''08:30'', ''09:30''])], events = []\<rparr>"

definition school_state :: state where
  "school_state =
     initial_state\<lparr>AUTH_USERS :=
       [''+919876543210'' \<mapsto> ''admin'', ''+919812345678'' \<mapsto> ''teacher'',
        ''+911234567890'' \<mapsto> ''developer'']\<rparr>"

text \<open>
  A world at clock \<open>t\<close> with a token, whose two media requests have the given results;
  \<open>world_at t\<close> is one where the platform knows no media.
\<close>

definition world_with ::
  "real \<Rightarrow> (py_error + nat \<times> (py_error + string option \<times> string option)) \<Rightarrow>
   (py_error + nat \<times> py_error option) \<Rightarrow> world" where
  "world_with t m f =
     \<lparr>now_get = t, now_set = t, ACCESS_TOKEN = Some ''EAAG'', meta_get = (\<lambda>_. m),
      file_get = (\<lambda>_. f)\<rparr>"

definition world_at :: "real \<Rightarrow> world" where
  "world_at t = world_with t (Inr (404, Inr (None, None))) (Inr (404, None))"

definition text_message :: "string \<Rightarrow> string \<Rightarrow> message" where
  "text_message sender body =
     \<lparr>msg_from = Some sender, msg_type = Some ''text'', text_body = Some body,
      audio_id = None\<rparr>"

definition audio_message :: "string \<Rightarrow> string \<Rightarrow> message" where
  "audio_message sender media_id =
     \<lparr>msg_from = Some sender, msg_type = Some ''audio'', text_body = None,
      audio_id = Some media_id\<rparr>"

section \<open>The string functions on Python's own examples\<close>

lemma split_maxsplit_examples:
  "split_maxsplit 1 ''   1   2   3   '' = [''1'', ''2   3   '']"
  "split_maxsplit 2 ''/schedule create Sports Day|09:00,10:15''
     = [''/schedule'', ''create'', ''Sports Day|09:00,10:15'']"
  "split_maxsplit 2 ''/bellmode'' = [''/bellmode'']"
  "split_maxsplit 2 ''   '' = []"
  by (simp_all add: numeral_2_eq_2 isspace_def)

lemma split_all_example: "split_all '' /assembly  11 x'' = [''/assembly'', ''11'', ''x'']"
  by code_simp

lemma strip_example: "strip ''  Good morning  '' = ''Good morning''"
  by (simp add: strip_def isspace_def)

lemma split_on_example: "split_on CHR '','' ''09:00, 10:15,'' = [''09:00'', '' 10:15'', []]"
  by simp

lemma split_once_example:
  "split_once CHR ''|'' ''Sports Day|09:00|x'' = (''Sports Day'', ''09:00|x'')"
  by (simp add: split_once_def)

lemma join_example: "join '', '' [''Regular Day'', ''Sports Day''] = ''Regular Day, Sports Day''"
  by simp

lemma str_lower_example: "str_lower ''/Announce Text Hi'' = ''/announce text hi''"
  by code_simp

section \<open>Session expiry\<close>

lemma get_session_live:
  "SESSIONS st I = Some s \<Longrightarrow> now - ts s \<le> 300 \<Longrightarrow> get_session now I st = (st, Some s)"
  by (simp add: get_session_def)

lemma get_session_expired:
  "SESSIONS st I = Some s \<Longrightarrow> now - ts s > 300 \<Longrightarrow>
   get_session now I st = (st\<lparr>SESSIONS := (SESSIONS st)(I := None)\<rparr>, None)"
  by (simp add: get_session_def clear_session_def)

lemma get_session_absent:
  "SESSIONS st I = None \<Longrightarrow> get_session now I st = (st, None)"
  by (simp add: get_session_def)

text \<open>
  C2 (as the code has it).  A read of the store at time \<open>now\<close> finds the session
  of identity \<open>I\<close>, stamped \<open>ts s\<close>, when \<open>now - ts s \<le> 300\<close>, the state unchanged;
  when \<open>now - ts s > 300\<close> it returns none and the entry is removed.  At exactly
  300 seconds the session is still there.
\<close>

theorem get_session_ttl:
  assumes "SESSIONS st I = Some s"
  shows "get_session now I st =
           (if now - ts s \<le> 300 then (st, Some s)
            else (st\<lparr>SESSIONS := (SESSIONS st)(I := None)\<rparr>, None))"
  using assms by (simp add: get_session_live get_session_expired)

theorem get_session_ttl_witness:
  "SESSIONS (set_session 1000 ''+919876543210'' ''announce_model'' [] initial_state)
      ''+919876543210''
     = Some \<lparr>expect = ''announce_model'', data = [], ts = 1000\<rparr>
   \<and> get_session 1299 ''+919876543210''
        (set_session 1000 ''+919876543210'' ''announce_model'' [] initial_state)
     = (set_session 1000 ''+919876543210'' ''announce_model'' [] initial_state,
        Some \<lparr>expect = ''announce_model'', data = [], ts = 1000\<rparr>)"
proof -
  have h: "SESSIONS (set_session 1000 ''+919876543210'' ''announce_model'' [] initial_state)
             ''+919876543210''
           = Some \<lparr>expect = ''announce_model'', data = [], ts = 1000\<rparr>"
    by (simp add: set_session_def)
  show ?thesis
    using h get_session_ttl [OF h, of 1299] by simp
qed

text \<open>
  The claim as written fails at the boundary: a session stamped 1000 and read at 1300,
  exactly 300 seconds later, is returned.
\<close>

theorem get_session_at_300_counterexample:
  "snd (get_session 1300 ''+919876543210''
          (set_session 1000 ''+919876543210'' ''announce_model'' [] initial_state))
   = Some \<lparr>expect = ''announce_model'', data = [], ts = 1000\<rparr>"
  by (simp add: get_session_def set_session_def)

section \<open>The verification handshake\<close>

text \<open>
  C7 (as the code has it).  Both endpoints answer with the raw challenge and status 200
  exactly when \<^verbatim>\<open>hub.mode\<close> is \<^verbatim>\<open>subscribe\<close> and the token equals the configured
  secret; every other request gets the body \<^verbatim>\<open>Forbidden\<close> and status 403.
\<close>

theorem verify_echoes_iff_subscribe_and_token:
  "(mode = Some ''subscribe'' \<and> token = Some secret
      \<longrightarrow> verify secret mode token chal = (chal, 200)
        \<and> verify_webhook secret mode token chal = (chal, 200))
   \<and> (\<not> (mode = Some ''subscribe'' \<and> token = Some secret)
      \<longrightarrow> verify secret mode token chal = (Some ''Forbidden'', 403)
        \<and> verify_webhook secret mode token chal = (Some ''Forbidden'', 403))
   \<and> (snd (verify secret mode token chal) = 200
        \<longleftrightarrow> mode = Some ''subscribe'' \<and> token = Some secret)
   \<and> (snd (verify_webhook secret mode token chal) = 200
        \<longleftrightarrow> mode = Some ''subscribe'' \<and> token = Some secret)"
  by (simp add: verify_def verify_webhook_def)

theorem verify_echoes_iff_subscribe_and_token_witness:
  "verify ''JOTHI_VERIFY'' (Some ''subscribe'') (Some ''JOTHI_VERIFY'') (Some ''1158201444'')
     = (Some ''1158201444'', 200)
   \<and> verify_webhook ''JOTHI_VERIFY'' (Some ''subscribe'') (Some ''JOTHI_VERIFY'')
       (Some ''1158201444'') = (Some ''1158201444'', 200)
   \<and> verify ''JOTHI_VERIFY'' (Some ''subscribe'') (Some ''jothi_verify'') (Some ''1158201444'')
     = (Some ''Forbidden'', 403)"
  using verify_echoes_iff_subscribe_and_token
          [of "Some ''subscribe''" "Some ''JOTHI_VERIFY''" "''JOTHI_VERIFY''" "Some ''1158201444''"]
        verify_echoes_iff_subscribe_and_token
          [of "Some ''subscribe''" "Some ''jothi_verify''" "''JOTHI_VERIFY''" "Some ''1158201444''"]
  by simp

text \<open>
  The claim as written fails: a request whose token equals the secret but that carries
  no \<^verbatim>\<open>hub.mode\<close> is rejected.
\<close>

theorem verify_token_alone_counterexample:
  "verify ''JOTHI_VERIFY'' None (Some ''JOTHI_VERIFY'') (Some ''1158201444'')
     = (Some ''Forbidden'', 403)
   \<and> verify_webhook ''JOTHI_VERIFY'' None (Some ''JOTHI_VERIFY'') (Some ''1158201444'')
     = (Some ''Forbidden'', 403)"
  by (simp add: verify_def verify_webhook_def)

section \<open>Session continuation\<close>

lemma strip_help: "strip ''/help'' = ''/help''"
  by (simp add: strip_def isspace_def)

lemma clear_session_eq:
  "clear_session sender st = st\<lparr>SESSIONS := (SESSIONS st)(sender := None)\<rparr>"
  by (cases "SESSIONS st sender") (simp_all add: clear_session_def fun_upd_idem)

lemma process_live:
  assumes "normalize_number (msg_from msg) = Some sender" "sender \<noteq> []"
      "SESSIONS st sender = Some sess" "now_get w - ts sess \<le> 300"
  shows "process_incoming_message w msg st = handle_session_message w sender sess msg st"
  using assms by (simp add: process_incoming_message_def get_session_live)

lemma announce_model_invalid:
  assumes "expect sess = ''announce_model''" "msg_type msg = Some ''text''"
    "strip (case text_body msg of None \<Rightarrow> [] | Some b \<Rightarrow> b) \<notin> set [''1'', ''2'', ''3'', ''4'']"
  shows "handle_session_message w sender sess msg st =
           Inr (send_whatsapp_text sender ''Invalid choice. Send 1,2,3 or 4.'' st)"
  using assms by (simp add: handle_session_message_def Let_def)

lemma announce_model_not_text:
  assumes "expect sess = ''announce_model''" "msg_type msg \<noteq> Some ''text''"
  shows "handle_session_message w sender sess msg st =
           Inr (send_whatsapp_text sender ''Please send model number 1/2/3/4 as text.'' st)"
  using assms by (simp add: handle_session_message_def)

lemma announce_model_malformed:
  assumes "expect sess = ''announce_model''"
      and "msg_type msg \<noteq> Some ''text'' \<or>
           strip (case text_body msg of None \<Rightarrow> [] | Some b \<Rightarrow> b) \<notin> set [''1'', ''2'', ''3'', ''4'']"
  shows "handle_session_message w sender sess msg st =
           Inr (st\<lparr>events := events st @
                  [SendText sender
                    (if msg_type msg \<noteq> Some ''text''
                     then ''Please send model number 1/2/3/4 as text.''
                     else ''Invalid choice. Send 1,2,3 or 4.'')]\<rparr>)"
proof (cases "msg_type msg = Some ''text''")
  case True
  with assms show ?thesis
    by (simp add: announce_model_invalid send_whatsapp_text_def)
next
  case False
  with assms show ?thesis
    by (simp add: announce_model_not_text send_whatsapp_text_def)
qed

lemma wait_voice_no_url:
  assumes "expect sess = ''announce_wait_voice''" "msg_type msg = Some ''audio''"
      and "ACCESS_TOKEN w = None \<or> ACCESS_TOKEN w = Some []
           \<or> (\<exists>code j. meta_get w (audio_id msg) = Inr (code, j) \<and> code \<noteq> 200)
           \<or> (\<exists>mime. meta_get w (audio_id msg) = Inr (200, Inr (None, mime)))
           \<or> (\<exists>mime. meta_get w (audio_id msg) = Inr (200, Inr (Some [], mime)))"
  shows "handle_session_message w sender sess msg st =
           Inr (st\<lparr>SESSIONS := (SESSIONS st)(sender := None),
                   events := events st @
                     [GetMediaUrl (audio_id msg), SendText sender ''Failed to get media URL.'']\<rparr>)"
  using assms
  by (auto simp add: handle_session_message_def get_media_url_def Let_def clear_session_eq
        send_whatsapp_text_def)

lemma wait_voice_no_file:
  assumes "expect sess = ''announce_wait_voice''" "msg_type msg = Some ''audio''"
      and "ACCESS_TOKEN w = Some tok" "tok \<noteq> []"
      and "meta_get w (audio_id msg) = Inr (200, Inr (Some u, mime))" "u \<noteq> []"
      and "file_get w u = Inr (code, wr)" "code \<noteq> 200"
  shows "handle_session_message w sender sess msg st =
           Inr (st\<lparr>SESSIONS := (SESSIONS st)(sender := None),
                   events := events st @
                     [GetMediaUrl (audio_id msg), DownloadMediaFile u (audio_id msg) mime,
                      SendText sender ''Failed to download voice.'']\<rparr>)"
  using assms
  by (simp add: handle_session_message_def get_media_url_def download_media_file_def
        Let_def clear_session_eq send_whatsapp_text_def)

lemma wait_voice_meta_raises:
  assumes "expect sess = ''announce_wait_voice''" "msg_type msg = Some ''audio''"
      and "ACCESS_TOKEN w = Some tok" "tok \<noteq> []"
      and "meta_get w (audio_id msg) = Inl e \<or> meta_get w (audio_id msg) = Inr (200, Inl e)"
  shows "handle_session_message w sender sess msg st =
           Inl (e, st\<lparr>events := events st @ [GetMediaUrl (audio_id msg)]\<rparr>)"
  using assms
  by (auto simp add: handle_session_message_def get_media_url_def Let_def)

lemma wait_voice_file_raises:
  assumes "expect sess = ''announce_wait_voice''" "msg_type msg = Some ''audio''"
      and "ACCESS_TOKEN w = Some tok" "tok \<noteq> []"
      and "meta_get w (audio_id msg) = Inr (200, Inr (Some u, mime))" "u \<noteq> []"
      and "file_get w u = Inl e"
  shows "handle_session_message w sender sess msg st =
           Inl (e, st\<lparr>events := events st @
                    [GetMediaUrl (audio_id msg), DownloadMediaFile u (audio_id msg) mime]\<rparr>)"
  using assms
  by (simp add: handle_session_message_def get_media_url_def download_media_file_def Let_def)

lemma wait_voice_no_mime_raises:
  assumes "expect sess = ''announce_wait_voice''" "msg_type msg = Some ''audio''"
      and "ACCESS_TOKEN w = Some tok" "tok \<noteq> []"
      and "meta_get w (audio_id msg) = Inr (200, Inr (Some u, None))" "u \<noteq> []"
      and "file_get w u = Inr (200, wr)"
  shows "handle_session_message w sender sess msg st =
           Inl (TypeError, st\<lparr>events := events st @
                    [GetMediaUrl (audio_id msg), DownloadMediaFile u (audio_id msg) None]\<rparr>)"
  using assms
  by (simp add: handle_session_message_def get_media_url_def download_media_file_def Let_def)

lemma wait_voice_played:
  assumes "expect sess = ''announce_wait_voice''" "msg_type msg = Some ''audio''"
      and "ACCESS_TOKEN w = Some tok" "tok \<noteq> []"
      and "meta_get w (audio_id msg) = Inr (200, Inr (Some u, Some ''audio/ogg''))" "u \<noteq> []"
      and "file_get w u = Inr (200, None)" "audio_id msg = Some i"
  shows "handle_session_message w sender sess msg st =
           Inr (st\<lparr>SESSIONS := (SESSIONS st)(sender := None),
                   events := events st @
                     [GetMediaUrl (Some i), DownloadMediaFile u (Some i) (Some ''audio/ogg''),
                      ThreadStart (PlayAudioBlocking (''wa_media_'' @ i @ ''.ogg'')),
                      SendText sender ''Voice announcement received and played.'']\<rparr>)"
  using assms
  by (simp add: handle_session_message_def get_media_url_def download_media_file_def Let_def
        clear_session_eq send_whatsapp_text_def thread_start_def startswith_def)

lemma padded_choice_accepted:
  assumes "expect sess = ''announce_model''" "msg_type msg = Some ''text''"
      and "text_body msg = Some '' 2 ''"
  shows "handle_session_message w sender sess msg st =
           Inr (st\<lparr>SESSIONS := (SESSIONS st)(sender := None),
                   events := events st @
                     [ThreadStart (TtsOpenaiOnline (dict_get (data sess) ''announce_text'' [])
                                     ''nova'' ''announce_nova.mp3''),
                      SendText sender ''Announcement played using model 2'']\<rparr>)"
proof -
  have s: "strip '' 2 '' = ''2''"
    by (simp add: strip_def isspace_def)
  show ?thesis
    using assms
    by (simp add: handle_session_message_def s dict_index_def model_map_def run_announce_def
          clear_session_eq send_whatsapp_text_def thread_start_def)
qed

lemma normalize_example: "normalize_number (Some ''919876543210'') = Some ''+919876543210''"
  by (simp add: normalize_number_def startswith_def)

text \<open>
  C1.  When the sender of an inbound message has a session in the store that has not
  expired, \<open>process_incoming_message\<close> is \<open>handle_session_message\<close> on that session:
  the text is never parsed as a command.  In particular \<^verbatim>\<open>/help\<close>, sent while a
  voice-model choice is awaited, gets the invalid-choice reply.
\<close>

theorem live_session_preempts_commands:
  assumes "normalize_number (msg_from msg) = Some sender" "sender \<noteq> []"
      "SESSIONS st sender = Some sess" "now_get w - ts sess \<le> 300"
  shows "process_incoming_message w msg st = handle_session_message w sender sess msg st
         \<and> (expect sess = ''announce_model'' \<and> msg_type msg = Some ''text''
              \<and> text_body msg = Some ''/help''
            \<longrightarrow> process_incoming_message w msg st =
                  Inr (send_whatsapp_text sender ''Invalid choice. Send 1,2,3 or 4.'' st))"
proof -
  have route: "process_incoming_message w msg st = handle_session_message w sender sess msg st"
    using assms by (rule process_live)
  have "handle_session_message w sender sess msg st =
          Inr (send_whatsapp_text sender ''Invalid choice. Send 1,2,3 or 4.'' st)"
    if "expect sess = ''announce_model''" "msg_type msg = Some ''text''"
       "text_body msg = Some ''/help''"
    using that by (intro announce_model_invalid) (simp_all add: strip_help)
  with route show ?thesis by simp
qed

theorem live_session_preempts_commands_witness:
  "process_incoming_message (world_at 1100) (text_message ''919876543210'' ''/help'')
     (set_session 1000 ''+919876543210'' ''announce_model''
        [(''announce_text'', ''Good morning'')] school_state)
   = Inr (send_whatsapp_text ''+919876543210'' ''Invalid choice. Send 1,2,3 or 4.''
           (set_session 1000 ''+919876543210'' ''announce_model''
              [(''announce_text'', ''Good morning'')] school_state))"
proof -
  let ?st = "set_session 1000 ''+919876543210'' ''announce_model''
               [(''announce_text'', ''Good morning'')] school_state"
  let ?sess = "\<lparr>expect = ''announce_model'', data = [(''announce_text'', ''Good morning'')],
                ts = 1000\<rparr>"
  let ?msg = "text_message ''919876543210'' ''/help''"
  have h1: "normalize_number (msg_from ?msg) = Some ''+919876543210''"
    by (simp add: text_message_def normalize_example)
  have h2: "''+919876543210'' \<noteq> []" by simp
  have h3: "SESSIONS ?st ''+919876543210'' = Some ?sess"
    by (simp add: set_session_def)
  have h4: "now_get (world_at 1100) - ts ?sess \<le> 300"
    by (simp add: world_at_def world_with_def)
  have h5: "expect ?sess = ''announce_model'' \<and> msg_type ?msg = Some ''text''
            \<and> text_body ?msg = Some ''/help''"
    by (simp add: text_message_def)
  from live_session_preempts_commands [OF h1 h2 h3 h4] h5 show ?thesis
    by blast
qed

text \<open>
  C8 (as the code has it).  In a live session that awaits a voice-model choice, an input
  that is not text, or whose text with the whitespace around it stripped is none of
  \<^verbatim>\<open>1\<close>, \<^verbatim>\<open>2\<close>, \<^verbatim>\<open>3\<close>, \<^verbatim>\<open>4\<close>, gets a re-prompt and changes nothing but the log of
  replies: the stored session is the same.  Sent a second
  time while the session is live, the same input gets the same re-prompt, and the
  session is still the same.
\<close>

theorem malformed_voice_choice_reprompts:
  assumes "normalize_number (msg_from msg) = Some sender" "sender \<noteq> []"
      and "SESSIONS st sender = Some sess" "expect sess = ''announce_model''"
      and "now_get w - ts sess \<le> 300" "now_get w' - ts sess \<le> 300"
      and "msg_type msg \<noteq> Some ''text'' \<or>
           strip (case text_body msg of None \<Rightarrow> [] | Some b \<Rightarrow> b) \<notin> set [''1'', ''2'', ''3'', ''4'']"
  shows "(let prompt = (if msg_type msg \<noteq> Some ''text''
                        then ''Please send model number 1/2/3/4 as text.''
                        else ''Invalid choice. Send 1,2,3 or 4.'');
              st1 = st\<lparr>events := events st @ [SendText sender prompt]\<rparr>;
              st2 = st\<lparr>events := events st @ [SendText sender prompt, SendText sender prompt]\<rparr>
          in handle_session_message w sender sess msg st = Inr st1
           \<and> process_incoming_message w msg st = Inr st1
           \<and> SESSIONS st1 sender = Some sess
           \<and> process_incoming_message w' msg st1 = Inr st2
           \<and> SESSIONS st2 sender = Some sess)"
proof -
  let ?p = "if msg_type msg \<noteq> Some ''text''
            then ''Please send model number 1/2/3/4 as text.''
            else ''Invalid choice. Send 1,2,3 or 4.''"
  let ?st1 = "st\<lparr>events := events st @ [SendText sender ?p]\<rparr>"
  have h1: "handle_session_message w sender sess msg st = Inr ?st1"
    using assms(4,7) by (rule announce_model_malformed)
  have p1: "process_incoming_message w msg st = Inr ?st1"
    using process_live [OF assms(1,2,3,5)] h1 by simp
  have s1: "SESSIONS ?st1 sender = Some sess"
    using assms(3) by simp
  have h2: "handle_session_message w' sender sess msg ?st1 =
              Inr (?st1\<lparr>events := events ?st1 @ [SendText sender ?p]\<rparr>)"
    using assms(4,7) by (rule announce_model_malformed)
  have p2: "process_incoming_message w' msg ?st1 =
              Inr (?st1\<lparr>events := events ?st1 @ [SendText sender ?p]\<rparr>)"
    using process_live [OF assms(1,2) s1 assms(6)] h2 by simp
  show ?thesis
    unfolding Let_def using h1 p1 s1 p2 assms(3) by simp
qed

theorem malformed_voice_choice_reprompts_witness:
  "process_incoming_message (world_at 1100) (text_message ''919876543210'' ''7'')
     (set_session 1000 ''+919876543210'' ''announce_model''
        [(''announce_text'', ''Good morning'')] school_state)
   = Inr ((set_session 1000 ''+919876543210'' ''announce_model''
             [(''announce_text'', ''Good morning'')] school_state)
          \<lparr>events := [SendText ''+919876543210'' ''Invalid choice. Send 1,2,3 or 4.'']\<rparr>)
   \<and> process_incoming_message (world_at 1200) (text_message ''919876543210'' ''7'')
       ((set_session 1000 ''+919876543210'' ''announce_model''
           [(''announce_text'', ''Good morning'')] school_state)
        \<lparr>events := [SendText ''+919876543210'' ''Invalid choice. Send 1,2,3 or 4.'']\<rparr>)
   = Inr ((set_session 1000 ''+919876543210'' ''announce_model''
             [(''announce_text'', ''Good morning'')] school_state)
          \<lparr>events := [SendText ''+919876543210'' ''Invalid choice. Send 1,2,3 or 4.'',
                       SendText ''+919876543210'' ''Invalid choice. Send 1,2,3 or 4.'']\<rparr>)"
proof -
  have seven: "strip ''7'' \<notin> set [''1'', ''2'', ''3'', ''4'']"
    by (simp add: strip_def isspace_def)
  have ev: "events (set_session 1000 ''+919876543210'' ''announce_model''
              [(''announce_text'', ''Good morning'')] school_state) = []"
    by (simp add: set_session_def school_state_def initial_state_def)
  show ?thesis
    using malformed_voice_choice_reprompts
          [of "text_message ''919876543210'' ''7''" "''+919876543210''"
              "set_session 1000 ''+919876543210'' ''announce_model''
                 [(''announce_text'', ''Good morning'')] school_state"
              "\<lparr>expect = ''announce_model'', data = [(''announce_text'', ''Good morning'')],
                ts = 1000\<rparr>"
              "world_at 1100" "world_at 1200"]
          seven ev
    by (simp add: normalize_example text_message_def set_session_def world_at_def world_with_def Let_def)
qed

text \<open>
  The claim as written fails on a choice with whitespace around it: the text \<^verbatim>\<open> 2 \<close> is
  none of the four literal choices, yet the handler strips it, starts the announcement
  and clears the session.
\<close>

theorem padded_choice_counterexample:
  "'' 2 '' \<notin> set [''1'', ''2'', ''3'', ''4'']
   \<and> process_incoming_message (world_at 1100) (text_message ''919876543210'' '' 2 '')
       (set_session 1000 ''+919876543210'' ''announce_model''
          [(''announce_text'', ''Good morning'')] school_state)
     = Inr (school_state
             \<lparr>events :=
                [ThreadStart (TtsOpenaiOnline ''Good morning'' ''nova'' ''announce_nova.mp3''),
                 SendText ''+919876543210'' ''Announcement played using model 2'']\<rparr>)"
proof -
  let ?sess = "\<lparr>expect = ''announce_model'',
                data = [(''announce_text'', ''Good morning'')], ts = 1000\<rparr>"
  let ?st = "set_session 1000 ''+919876543210'' ''announce_model''
               [(''announce_text'', ''Good morning'')] school_state"
  let ?msg = "text_message ''919876543210'' '' 2 ''"
  have h1: "normalize_number (msg_from ?msg) = Some ''+919876543210''"
    by (simp add: text_message_def normalize_example)
  have h2: "''+919876543210'' \<noteq> []" by simp
  have h3: "SESSIONS ?st ''+919876543210'' = Some ?sess"
    by (simp add: set_session_def)
  have h4: "now_get (world_at 1100) - ts ?sess \<le> 300"
    by (simp add: world_at_def world_with_def)
  have e: "expect ?sess = ''announce_model''" by simp
  have t: "msg_type ?msg = Some ''text''" by (simp add: text_message_def)
  have b: "text_body ?msg = Some '' 2 ''" by (simp add: text_message_def)
  have "process_incoming_message (world_at 1100) ?msg ?st =
          Inr (?st\<lparr>SESSIONS := (SESSIONS ?st)(''+919876543210'' := None),
                 events := events ?st @
                   [ThreadStart (TtsOpenaiOnline (dict_get (data ?sess) ''announce_text'' [])
                                   ''nova'' ''announce_nova.mp3''),
                    SendText ''+919876543210'' ''Announcement played using model 2'']\<rparr>)"
    using process_live [OF h1 h2 h3 h4] padded_choice_accepted [OF e t b] by simp
  then show ?thesis
    by (simp add: dict_get_def set_session_def school_state_def initial_state_def)
qed

text \<open>
  What the handler gets right: when the media calls return and say that they failed, the
  sender gets the message of that failure and the session is cleared.
\<close>

lemma media_failure_returned_clears_session:
  assumes "normalize_number (msg_from msg) = Some sender" "sender \<noteq> []"
      and "SESSIONS st sender = Some sess" "now_get w - ts sess \<le> 300"
      and "expect sess = ''announce_wait_voice''" "msg_type msg = Some ''audio''"
      and "ACCESS_TOKEN w = Some tok" "tok \<noteq> []"
  shows "((\<exists>code j. meta_get w (audio_id msg) = Inr (code, j) \<and> code \<noteq> 200)
          \<longrightarrow> process_incoming_message w msg st =
                Inr (st\<lparr>SESSIONS := (SESSIONS st)(sender := None),
                        events := events st @
                          [GetMediaUrl (audio_id msg),
                           SendText sender ''Failed to get media URL.'']\<rparr>))
       \<and> (\<forall>u mime code wr.
            meta_get w (audio_id msg) = Inr (200, Inr (Some u, mime)) \<and> u \<noteq> [] \<and>
            file_get w u = Inr (code, wr) \<and> code \<noteq> 200
          \<longrightarrow> process_incoming_message w msg st =
                Inr (st\<lparr>SESSIONS := (SESSIONS st)(sender := None),
                        events := events st @
                          [GetMediaUrl (audio_id msg),
                           DownloadMediaFile u (audio_id msg) mime,
                           SendText sender ''Failed to download voice.'']\<rparr>))"
proof -
  have route: "process_incoming_message w msg st = handle_session_message w sender sess msg st"
    using assms(1-4) by (rule process_live)
  show ?thesis
    unfolding route
    using wait_voice_no_url [OF assms(5,6), of w] wait_voice_no_file [OF assms(5,6,7,8)]
    by blast
qed

text \<open>
  C9 (what the code does when a media call raises).  \<open>get_media_url\<close> and
  \<open>download_media_file\<close> call \<^verbatim>\<open>requests.get\<close> with no \<^verbatim>\<open>try\<close> around it, and the second
  one tests \<^verbatim>\<open>"ogg" in mime_type\<close> on a \<^verbatim>\<open>mime_type\<close> that may be \<open>None\<close>.  In a live
  session that awaits a voice note, when the metadata request raises, when the download
  request raises, or when the metadata has no \<^verbatim>\<open>mime_type\<close> and the download answers
  200, the exception escapes from \<open>process_incoming_message\<close>: the log holds the media
  calls and no reply, and the sender's session is still in the store.
\<close>

theorem media_exception_leaves_session_open:
  assumes "normalize_number (msg_from msg) = Some sender" "sender \<noteq> []"
      and "SESSIONS st sender = Some sess" "now_get w - ts sess \<le> 300"
      and "expect sess = ''announce_wait_voice''" "msg_type msg = Some ''audio''"
      and "ACCESS_TOKEN w = Some tok" "tok \<noteq> []"
  shows "(meta_get w (audio_id msg) = Inl e
          \<longrightarrow> process_incoming_message w msg st =
                Inl (e, st\<lparr>events := events st @ [GetMediaUrl (audio_id msg)]\<rparr>))
       \<and> (\<forall>u mime.
            meta_get w (audio_id msg) = Inr (200, Inr (Some u, mime)) \<and> u \<noteq> []
          \<longrightarrow> (file_get w u = Inl e
                \<longrightarrow> process_incoming_message w msg st =
                      Inl (e, st\<lparr>events := events st @
                               [GetMediaUrl (audio_id msg),
                                DownloadMediaFile u (audio_id msg) mime]\<rparr>))
              \<and> (mime = None \<and> (\<exists>wr. file_get w u = Inr (200, wr))
                \<longrightarrow> process_incoming_message w msg st =
                      Inl (TypeError, st\<lparr>events := events st @
                               [GetMediaUrl (audio_id msg),
                                DownloadMediaFile u (audio_id msg) None]\<rparr>)))
       \<and> SESSIONS (st\<lparr>events := events st @ [GetMediaUrl (audio_id msg)]\<rparr>) sender = Some sess"
proof -
  have route: "process_incoming_message w msg st = handle_session_message w sender sess msg st"
    using assms(1-4) by (rule process_live)
  have a: "handle_session_message w sender sess msg st =
             Inl (e, st\<lparr>events := events st @ [GetMediaUrl (audio_id msg)]\<rparr>)"
    if "meta_get w (audio_id msg) = Inl e"
    using wait_voice_meta_raises [OF assms(5,6,7,8)] that by blast
  have b: "handle_session_message w sender sess msg st =
             Inl (e, st\<lparr>events := events st @
                      [GetMediaUrl (audio_id msg), DownloadMediaFile u (audio_id msg) mime]\<rparr>)"
    if "meta_get w (audio_id msg) = Inr (200, Inr (Some u, mime))" "u \<noteq> []"
       "file_get w u = Inl e" for u mime
    using wait_voice_file_raises [OF assms(5,6,7,8) that] .
  have c: "handle_session_message w sender sess msg st =
             Inl (TypeError, st\<lparr>events := events st @
                      [GetMediaUrl (audio_id msg), DownloadMediaFile u (audio_id msg) None]\<rparr>)"
    if "meta_get w (audio_id msg) = Inr (200, Inr (Some u, None))" "u \<noteq> []"
       "file_get w u = Inr (200, wr)" for u wr
    using wait_voice_no_mime_raises [OF assms(5,6,7,8) that] .
  have d: "SESSIONS (st\<lparr>events := events st @ [GetMediaUrl (audio_id msg)]\<rparr>) sender = Some sess"
    using assms(3) by simp
  show ?thesis
    unfolding route using a b c d by blast
qed

theorem media_exception_leaves_session_open_witness:
  "process_incoming_message
     (world_with 1100
        (Inr (200, Inr (Some ''https://lookaside.fbsbx.com/m1'', Some ''audio/ogg'')))
        (Inl RequestException))
     (audio_message ''919876543210'' ''m1'')
     (set_session 1000 ''+919876543210'' ''announce_wait_voice'' [] school_state)
   = Inl (RequestException,
          (set_session 1000 ''+919876543210'' ''announce_wait_voice'' [] school_state)
            \<lparr>events :=
               [GetMediaUrl (Some ''m1''),
                DownloadMediaFile ''https://lookaside.fbsbx.com/m1'' (Some ''m1'')
                  (Some ''audio/ogg'')]\<rparr>)
   \<and> process_incoming_message
       (world_with 1100 (Inr (200, Inr (Some ''https://lookaside.fbsbx.com/m1'', None)))
          (Inr (200, None)))
       (audio_message ''919876543210'' ''m1'')
       (set_session 1000 ''+919876543210'' ''announce_wait_voice'' [] school_state)
   = Inl (TypeError,
          (set_session 1000 ''+919876543210'' ''announce_wait_voice'' [] school_state)
            \<lparr>events :=
               [GetMediaUrl (Some ''m1''),
                DownloadMediaFile ''https://lookaside.fbsbx.com/m1'' (Some ''m1'') None]\<rparr>)
   \<and> SESSIONS (set_session 1000 ''+919876543210'' ''announce_wait_voice'' [] school_state)
       ''+919876543210''
     = Some \<lparr>expect = ''announce_wait_voice'', data = [], ts = 1000\<rparr>"
proof -
  let ?st = "set_session 1000 ''+919876543210'' ''announce_wait_voice'' [] school_state"
  let ?sess = "\<lparr>expect = ''announce_wait_voice'', data = [], ts = 1000\<rparr>"
  let ?msg = "audio_message ''919876543210'' ''m1''"
  let ?u = "''https://lookaside.fbsbx.com/m1''"
  let ?w1 = "world_with 1100 (Inr (200, Inr (Some ?u, Some ''audio/ogg''))) (Inl RequestException)"
  let ?w2 = "world_with 1100 (Inr (200, Inr (Some ?u, None))) (Inr (200, None))"
  have h1: "normalize_number (msg_from ?msg) = Some ''+919876543210''"
    by (simp add: audio_message_def normalize_example)
  have h2: "''+919876543210'' \<noteq> []" by simp
  have h3: "SESSIONS ?st ''+919876543210'' = Some ?sess"
    by (simp add: set_session_def)
  have h4: "now_get ?w1 - ts ?sess \<le> 300" "now_get ?w2 - ts ?sess \<le> 300"
    by (simp_all add: world_with_def)
  have h5: "expect ?sess = ''announce_wait_voice''" by simp
  have h6: "msg_type ?msg = Some ''audio''" by (simp add: audio_message_def)
  have h7: "ACCESS_TOKEN ?w1 = Some ''EAAG''" "ACCESS_TOKEN ?w2 = Some ''EAAG''"
    by (simp_all add: world_with_def)
  have h8: "''EAAG'' \<noteq> []" by simp
  have id: "audio_id ?msg = Some ''m1''" by (simp add: audio_message_def)
  have m1: "meta_get ?w1 (audio_id ?msg) = Inr (200, Inr (Some ?u, Some ''audio/ogg''))"
    by (simp add: world_with_def)
  have m2: "meta_get ?w2 (audio_id ?msg) = Inr (200, Inr (Some ?u, None))"
    by (simp add: world_with_def)
  have f1: "file_get ?w1 ?u = Inl RequestException" by (simp add: world_with_def)
  have f2: "\<exists>wr. file_get ?w2 ?u = Inr (200, wr)" by (simp add: world_with_def)
  have u: "?u \<noteq> []" by simp
  have ev: "events ?st = []"
    by (simp add: set_session_def school_state_def initial_state_def)
  from media_exception_leaves_session_open
         [OF h1 h2 h3 h4(1) h5 h6 h7(1) h8, of RequestException] m1 f1 u
  have r1: "process_incoming_message ?w1 ?msg ?st =
              Inl (RequestException,
                   ?st\<lparr>events := events ?st @
                         [GetMediaUrl (audio_id ?msg),
                          DownloadMediaFile ?u (audio_id ?msg) (Some ''audio/ogg'')]\<rparr>)"
    by blast
  from media_exception_leaves_session_open
         [OF h1 h2 h3 h4(2) h5 h6 h7(2) h8, of RequestException] m2 f2 u
  have r2: "process_incoming_message ?w2 ?msg ?st =
              Inl (TypeError,
                   ?st\<lparr>events := events ?st @
                         [GetMediaUrl (audio_id ?msg),
                          DownloadMediaFile ?u (audio_id ?msg) None]\<rparr>)"
    by blast
  show ?thesis
    using r1 r2 h3 by (simp add: id ev)
qed

section \<open>Announcing a text\<close>

lemma startswith_split: "startswith s p \<Longrightarrow> s = p @ drop (length p) s"
  unfolding startswith_def by (metis append_take_drop_id)







lemma process_command:
  assumes "normalize_number (msg_from msg) = Some sender" "sender \<noteq> []"
      and "SESSIONS st sender = None" "msg_type msg = Some ''text''"
      and "text_body msg = Some body" "startswith (strip body) ''/''"
  shows "process_incoming_message w msg st = handle_slash_command w sender (strip body) st"
  using assms by (simp add: process_incoming_message_def get_session_absent)


lemma no_session_example: "SESSIONS school_state x = None"
  by (simp add: school_state_def initial_state_def)

lemma no_events_example: "events school_state = []"
  by (simp add: school_state_def initial_state_def)




section \<open>Today's bell times\<close>

lemma strip_bellmode_today: "strip ''/bellmode today'' = ''/bellmode today''"
  by (simp add: strip_def isspace_def)

lemma split_bellmode_today:
  "split_maxsplit 2 ''/bellmode today'' = [''/bellmode'', ''today'']"
  by (simp add: numeral_2_eq_2 isspace_def)

lemma slash_bellmode_today:
  assumes "get_role st sender \<in> set [''teacher'', ''developer'']"
  shows "handle_slash_command w sender ''/bellmode today'' st =
           Inr (st\<lparr>SESSIONS := (SESSIONS st)(sender \<mapsto>
                      \<lparr>expect = ''bell_today_input'', data = [], ts = now_set w\<rparr>),
                   events := events st @
                     [SendText sender
                        (''Send times for TODAY as comma separated HH:MM values. '' @
                         ''Example: 09:00,10:30,12:00'')]\<rparr>)"
proof -
  have a: "bellmode_command w sender ''/bellmode today'' (get_role st sender) st =
           Inr (st\<lparr>SESSIONS := (SESSIONS st)(sender \<mapsto>
                      \<lparr>expect = ''bell_today_input'', data = [], ts = now_set w\<rparr>),
                   events := events st @
                     [SendText sender
                        (''Send times for TODAY as comma separated HH:MM values. '' @
                         ''Example: 09:00,10:30,12:00'')]\<rparr>)"
    using assms
    by (simp add: bellmode_command_def split_bellmode_today send_whatsapp_text_def
          set_session_def)
  show ?thesis
    unfolding handle_slash_command_def strip_bellmode_today Let_def
    by (simp add: startswith_def a)
qed

lemma unknown_session:
  assumes "expect sess \<noteq> ''announce_model''" "expect sess \<noteq> ''announce_wait_voice''"
  shows "handle_session_message w sender sess msg st =
           Inr (st\<lparr>SESSIONS := (SESSIONS st)(sender := None),
                   events := events st @ [SendText sender ''Session expired or unknown.'']\<rparr>)"
  using assms
  by (simp add: handle_session_message_def clear_session_eq send_whatsapp_text_def)

lemma teacher_example: "get_role school_state ''+919812345678'' = ''teacher''"
  by (simp add: get_role_def school_state_def)

lemma normalize_teacher: "normalize_number (Some ''919812345678'') = Some ''+919812345678''"
  by (simp add: normalize_number_def startswith_def)

text \<open>
  C4 (what the code does).  A teacher or developer with no session sends
  \<^verbatim>\<open>/bellmode today\<close>: the prompt for today's times is sent and the store holds a
  session with the tag \<^verbatim>\<open>bell_today_input\<close>.  \<open>handle_session_message\<close> has no branch
  for that tag, so whatever the sender sends next while the session is live, a list of
  \<^verbatim>\<open>HH:MM\<close> times too, gets the reply \<^verbatim>\<open>Session expired or unknown.\<close> and the session
  is cleared: no time is taken and no bell job is started.
\<close>

theorem bell_today_times_are_not_consumed:
  assumes "get_role st sender \<in> set [''teacher'', ''developer'']"
      and "normalize_number (msg_from m1) = Some sender" "sender \<noteq> []"
      and "SESSIONS st sender = None"
      and "msg_type m1 = Some ''text''" "text_body m1 = Some ''/bellmode today''"
      and "normalize_number (msg_from m2) = Some sender"
      and "now_get w2 - now_set w1 \<le> 300"
  shows "(let prompt = ''Send times for TODAY as comma separated HH:MM values. '' @
                       ''Example: 09:00,10:30,12:00'';
              st1 = st\<lparr>SESSIONS := (SESSIONS st)(sender \<mapsto>
                          \<lparr>expect = ''bell_today_input'', data = [], ts = now_set w1\<rparr>),
                        events := events st @ [SendText sender prompt]\<rparr>
          in process_incoming_message w1 m1 st = Inr st1
           \<and> process_incoming_message w2 m2 st1 =
               Inr (st\<lparr>events := events st @
                         [SendText sender prompt,
                          SendText sender ''Session expired or unknown.'']\<rparr>))"
proof -
  let ?prompt = "''Send times for TODAY as comma separated HH:MM values. '' @
                       ''Example: 09:00,10:30,12:00''"
  let ?sess = "\<lparr>expect = ''bell_today_input'', data = [], ts = now_set w1\<rparr>"
  let ?st1 = "st\<lparr>SESSIONS := (SESSIONS st)(sender \<mapsto> ?sess),
                  events := events st @ [SendText sender ?prompt]\<rparr>"
  have sw: "startswith (strip ''/bellmode today'') ''/''"
    by (simp add: strip_bellmode_today startswith_def)
  have step1: "process_incoming_message w1 m1 st = Inr ?st1"
    using process_command [OF assms(2,3,4,5,6) sw, of w1] slash_bellmode_today [OF assms(1), of w1]
    by (simp add: strip_bellmode_today)
  have s1: "SESSIONS ?st1 sender = Some ?sess" by simp
  have live: "now_get w2 - ts ?sess \<le> 300" using assms(8) by simp
  have e1: "expect ?sess \<noteq> ''announce_model''" by simp
  have e2: "expect ?sess \<noteq> ''announce_wait_voice''" by simp
  have step2: "process_incoming_message w2 m2 ?st1 =
                 Inr (?st1\<lparr>SESSIONS := (SESSIONS ?st1)(sender := None),
                     events := events ?st1 @ [SendText sender ''Session expired or unknown.'']\<rparr>)"
    using process_live [OF assms(7,3) s1 live] unknown_session [OF e1 e2]
    by simp
  have fin: "?st1\<lparr>SESSIONS := (SESSIONS ?st1)(sender := None),
                     events := events ?st1 @ [SendText sender ''Session expired or unknown.'']\<rparr>
             = st\<lparr>events := events st @
                         [SendText sender ?prompt,
                          SendText sender ''Session expired or unknown.'']\<rparr>"
    using assms(4) by (simp add: fun_upd_idem)
  show ?thesis
    unfolding Let_def using step1 step2 fin by simp
qed

theorem bell_today_times_are_not_consumed_witness:
  "process_incoming_message (world_at 1000)
     (text_message ''919812345678'' ''/bellmode today'') school_state
   = Inr (school_state
           \<lparr>SESSIONS := (SESSIONS school_state)(''+919812345678'' \<mapsto>
              \<lparr>expect = ''bell_today_input'', data = [], ts = 1000\<rparr>),
            events :=
              [SendText ''+919812345678''
                 (''Send times for TODAY as comma separated HH:MM values. '' @
                  ''Example: 09:00,10:30,12:00'')]\<rparr>)
   \<and> process_incoming_message (world_at 1060)
       (text_message ''919812345678'' ''09:00,10:30,12:00'')
       (school_state
         \<lparr>SESSIONS := (SESSIONS school_state)(''+919812345678'' \<mapsto>
            \<lparr>expect = ''bell_today_input'', data = [], ts = 1000\<rparr>),
          events :=
            [SendText ''+919812345678''
               (''Send times for TODAY as comma separated HH:MM values. '' @
                ''Example: 09:00,10:30,12:00'')]\<rparr>)
   = Inr (school_state
           \<lparr>events :=
              [SendText ''+919812345678''
                 (''Send times for TODAY as comma separated HH:MM values. '' @
                  ''Example: 09:00,10:30,12:00''),
               SendText ''+919812345678'' ''Session expired or unknown.'']\<rparr>)"
proof -
  let ?m1 = "text_message ''919812345678'' ''/bellmode today''"
  let ?m2 = "text_message ''919812345678'' ''09:00,10:30,12:00''"
  have h1: "get_role school_state ''+919812345678'' \<in> set [''teacher'', ''developer'']"
    by (simp add: teacher_example)
  have h2: "normalize_number (msg_from ?m1) = Some ''+919812345678''"
    by (simp add: text_message_def normalize_teacher)
  have h3: "''+919812345678'' \<noteq> []" by simp
  have h5: "msg_type ?m1 = Some ''text''" by (simp add: text_message_def)
  have h6: "text_body ?m1 = Some ''/bellmode today''" by (simp add: text_message_def)
  have h7: "normalize_number (msg_from ?m2) = Some ''+919812345678''"
    by (simp add: text_message_def normalize_teacher)
  have h8: "now_get (world_at 1060) - now_set (world_at 1000) \<le> 300"
    by (simp add: world_at_def world_with_def)
  have t: "now_set (world_at 1000) = 1000" by (simp add: world_at_def world_with_def)
  from bell_today_times_are_not_consumed
         [OF h1 h2 h3 no_session_example h5 h6 h7 h8]
  show ?thesis
    unfolding Let_def t no_events_example by simp
qed

section \<open>Using a saved schedule\<close>

lemma slash_bellmode_use_empty:
  assumes "get_role st sender \<in> set [''teacher'', ''developer'']"
      and "startswith (strip body) ''/bellmode''"
      and "split_maxsplit 2 (strip body) = [p0, ''use'', p2]"
      and "get_schedule st (strip p2) = []"
  shows "handle_slash_command w sender body st =
           Inr (send_whatsapp_text sender
                 (''Schedule '' @ apostrophe @ strip p2 @ apostrophe @ '' not found.'') st)"
proof -
  obtain r where r: "strip body = ''/bellmode'' @ r"
    using startswith_split [OF assms(2)] by blast
  have a: "bellmode_command w sender (strip body) (get_role st sender) st =
             Inr (send_whatsapp_text sender
                   (''Schedule '' @ apostrophe @ strip p2 @ apostrophe @ '' not found.'') st)"
    using assms(1,4) by (simp add: bellmode_command_def assms(3) Let_def)
  have b: "handle_slash_command w sender body st =
             bellmode_command w sender (strip body) (get_role st sender) st"
    unfolding handle_slash_command_def Let_def
    by (simp add: r startswith_def)
  show ?thesis using a b by simp
qed

lemma get_schedule_empty: "map_of (BELL_SCHEDULES st) n = Some [] \<Longrightarrow> get_schedule st n = []"
  by (simp add: get_schedule_def dict_get_def)

lemma get_schedule_deleted: "get_schedule (delete_schedule n st) n = []"
proof -
  have "map_of (dict_pop n d) n = None" for d :: "(string \<times> string list) list"
    by (induction d) (simp_all add: dict_pop_def)
  then show ?thesis
    by (simp add: get_schedule_def dict_get_def delete_schedule_def)
qed

lemma get_role_delete_schedule: "get_role (delete_schedule n st) sender = get_role st sender"
  by (simp add: get_role_def delete_schedule_def)

lemma strip_use_sports: "strip ''/bellmode use Sports Day'' = ''/bellmode use Sports Day''"
  by (simp add: strip_def isspace_def)

lemma split_use_sports:
  "split_maxsplit 2 ''/bellmode use Sports Day'' = [''/bellmode'', ''use'', ''Sports Day'']"
  by (simp add: numeral_2_eq_2 isspace_def)

lemma strip_sports: "strip ''Sports Day'' = ''Sports Day''"
  by (simp add: strip_def isspace_def)

text \<open>
  C10.  A teacher or developer sends a \<^verbatim>\<open>/bellmode\<close> command that splits into the
  command, \<^verbatim>\<open>use\<close> and a name.  When the schedule store maps the stripped name to the
  empty list, the only effect is the reply that the schedule is not found: no ring job
  is started.  The reply is the same once the schedule is deleted from the store, so an
  empty schedule cannot be told from an absent one.
\<close>

theorem empty_schedule_is_not_found:
  assumes "get_role st sender \<in> set [''teacher'', ''developer'']"
      and "startswith (strip body) ''/bellmode''"
      and "split_maxsplit 2 (strip body) = [p0, ''use'', p2]"
      and "map_of (BELL_SCHEDULES st) (strip p2) = Some []"
  shows "handle_slash_command w sender body st =
           Inr (st\<lparr>events := events st @
                  [SendText sender
                     (''Schedule '' @ apostrophe @ strip p2 @ apostrophe @ '' not found.'')]\<rparr>)
       \<and> handle_slash_command w sender body (delete_schedule (strip p2) st) =
           Inr ((delete_schedule (strip p2) st)
                  \<lparr>events := events st @
                     [SendText sender
                        (''Schedule '' @ apostrophe @ strip p2 @ apostrophe @ '' not found.'')]\<rparr>)"
proof -
  have present: "get_schedule st (strip p2) = []"
    using assms(4) by (rule get_schedule_empty)
  have role': "get_role (delete_schedule (strip p2) st) sender \<in> set [''teacher'', ''developer'']"
    using assms(1) by (simp only: get_role_delete_schedule)
  have ev: "events (delete_schedule (strip p2) st) = events st"
    by (simp add: delete_schedule_def)
  show ?thesis
    using slash_bellmode_use_empty [OF assms(1,2,3) present, of w]
          slash_bellmode_use_empty [OF role' assms(2,3) get_schedule_deleted, of w]
    by (simp add: send_whatsapp_text_def ev)
qed

theorem empty_schedule_is_not_found_witness:
  "handle_slash_command (world_at 1000) ''+919812345678'' ''/bellmode use Sports Day''
     (update_schedule ''Sports Day'' [] school_state)
   = Inr ((update_schedule ''Sports Day'' [] school_state)
            \<lparr>events :=
               [SendText ''+919812345678''
                  (''Schedule '' @ apostrophe @ ''Sports Day'' @ apostrophe @ '' not found.'')]\<rparr>)
   \<and> handle_slash_command (world_at 1000) ''+919812345678'' ''/bellmode use Sports Day''
       school_state
   = Inr (school_state
            \<lparr>events :=
               [SendText ''+919812345678''
                  (''Schedule '' @ apostrophe @ ''Sports Day'' @ apostrophe @ '' not found.'')]\<rparr>)"
proof -
  let ?st = "update_schedule ''Sports Day'' [] school_state"
  have h1: "get_role ?st ''+919812345678'' \<in> set [''teacher'', ''developer'']"
    by (simp add: get_role_def update_schedule_def school_state_def)
  have h2: "startswith (strip ''/bellmode use Sports Day'') ''/bellmode''"
    by (simp add: strip_use_sports startswith_def)
  have h3: "split_maxsplit 2 (strip ''/bellmode use Sports Day'')
              = [''/bellmode'', ''use'', ''Sports Day'']"
    by (simp only: strip_use_sports split_use_sports)
  have h4: "map_of (BELL_SCHEDULES ?st) (strip ''Sports Day'') = Some []"
    by (simp add: strip_sports update_schedule_def school_state_def initial_state_def)
  have d: "delete_schedule ''Sports Day'' ?st = school_state"
    by (simp add: delete_schedule_def update_schedule_def school_state_def initial_state_def
          dict_pop_def)
  have ev: "events ?st = []"
    by (simp add: update_schedule_def school_state_def initial_state_def)
  from empty_schedule_is_not_found [OF h1 h2 h3 h4, of "world_at 1000"]
  show ?thesis
    by (simp add: strip_sports d ev)
qed

section \<open>Role gates\<close>

text \<open>
  The gates of \<^verbatim>\<open>/bellmode\<close>, \<^verbatim>\<open>/assembly\<close>, \<^verbatim>\<open>/announce\<close> and \<^verbatim>\<open>/settings\<close>: a role
  outside the allowed set gets \<^verbatim>\<open>Not allowed.\<close> and nothing else happens.
\<close>

lemma bellmode_denied:
  assumes "startswith (strip body) ''/bellmode''"
      and "get_role st sender \<notin> set [''teacher'', ''developer'']"
  shows "handle_slash_command w sender body st =
           Inr (send_whatsapp_text sender ''Not allowed.'' st)"
proof -
  obtain r where r: "strip body = ''/bellmode'' @ r"
    using startswith_split [OF assms(1)] by blast
  show ?thesis
    unfolding handle_slash_command_def Let_def
    using assms(2) by (simp add: r startswith_def bellmode_command_def)
qed

lemma assembly_denied:
  assumes "startswith (strip body) ''/assembly''"
      and "get_role st sender \<notin> set [''teacher'', ''developer'']"
  shows "handle_slash_command w sender body st =
           Inr (send_whatsapp_text sender ''Not allowed.'' st)"
proof -
  obtain r where r: "strip body = ''/assembly'' @ r"
    using startswith_split [OF assms(1)] by blast
  show ?thesis
    unfolding handle_slash_command_def Let_def
    using assms(2) by (simp add: r startswith_def assembly_command_def)
qed

lemma announce_denied:
  assumes "startswith (strip body) ''/announce''"
      and "get_role st sender \<notin> set [''admin'', ''developer'']"
  shows "handle_slash_command w sender body st =
           Inr (send_whatsapp_text sender ''Not allowed.'' st)"
proof -
  obtain r where r: "strip body = ''/announce'' @ r"
    using startswith_split [OF assms(1)] by blast
  show ?thesis
    unfolding handle_slash_command_def Let_def
    using assms(2) by (simp add: r startswith_def announce_command_def)
qed

lemma settings_denied:
  assumes "startswith (strip body) ''/settings''"
      and "get_role st sender \<noteq> ''developer''"
  shows "handle_slash_command w sender body st =
           Inr (send_whatsapp_text sender ''Not allowed.'' st)"
proof -
  obtain r where r: "strip body = ''/settings'' @ r"
    using startswith_split [OF assms(1)] by blast
  show ?thesis
    unfolding handle_slash_command_def Let_def
    using assms(2) by (simp add: r startswith_def settings_command_def)
qed

text \<open>
  C3 (what the code does for \<^verbatim>\<open>/schedule\<close>).  The role test of the schedule block is
  part of its condition, so a sender who is not a developer falls through to the end of
  \<open>handle_slash_command\<close>: the reply is \<^verbatim>\<open>Unknown command. Type /help\<close>, not
  \<^verbatim>\<open>Not allowed.\<close>  Nothing else happens: no job, no session, no change of the store.
\<close>

theorem schedule_denial_is_unknown_command:
  assumes "startswith (strip body) ''/schedule''"
      and "get_role st sender \<noteq> ''developer''"
  shows "handle_slash_command w sender body st =
           Inr (st\<lparr>events := events st @
                  [SendText sender ''Unknown command. Type /help'']\<rparr>)"
proof -
  obtain r where r: "strip body = ''/schedule'' @ r"
    using startswith_split [OF assms(1)] by blast
  show ?thesis
    unfolding handle_slash_command_def Let_def
    using assms(2) by (simp add: r startswith_def send_whatsapp_text_def)
qed

theorem schedule_denial_is_unknown_command_witness:
  "handle_slash_command (world_at 1000) ''+919812345678'' ''/schedule list'' school_state
   = Inr (school_state\<lparr>events :=
            [SendText ''+919812345678'' ''Unknown command. Type /help'']\<rparr>)"
proof -
  have h1: "startswith (strip ''/schedule list'') ''/schedule''"
    by (simp add: strip_def isspace_def startswith_def)
  have h2: "get_role school_state ''+919812345678'' \<noteq> ''developer''"
    by (simp add: teacher_example)
  from schedule_denial_is_unknown_command [OF h1 h2, of "world_at 1000"]
  show ?thesis by (simp add: no_events_example)
qed

section \<open>Letter case of command names\<close>

lemma handle_command_lower:
  "str_lower a = str_lower b \<Longrightarrow> handle_command a sender = handle_command b sender'"
  by (simp add: handle_command_def)

lemma lower_HELP: "str_lower ''/HELP'' = ''/help''" "str_lower ''/Help'' = ''/help''"
  "str_lower ''/help'' = ''/help''"
  by code_simp+

text \<open>
  C5 (what the code does).  \<open>handle_slash_command\<close> compares the stripped body as it
  is, so \<^verbatim>\<open>/HELP\<close> and \<^verbatim>\<open>/Help\<close> are unknown commands for every role while \<^verbatim>\<open>/help\<close>
  gets a teacher the help text.  \<open>handle_command\<close> of whatsapp_server.py lowers the
  text first and answers the three spellings alike.
\<close>

theorem command_name_is_case_sensitive:
  "handle_slash_command w sender ''/HELP'' st =
     Inr (send_whatsapp_text sender ''Unknown command. Type /help'' st)
   \<and> handle_slash_command w sender ''/Help'' st =
     Inr (send_whatsapp_text sender ''Unknown command. Type /help'' st)
   \<and> (get_role st sender = ''teacher'' \<longrightarrow>
        handle_slash_command w sender ''/help'' st =
          Inr (send_whatsapp_text sender
                (''JOTHI Commands (Teacher):\<newline>/bellmode - Bell options\<newline>'' @
                 ''/assembly - Assembly playback\<newline>/about - About us'') st))
   \<and> handle_command ''/HELP'' sender = handle_command ''/help'' sender
   \<and> handle_command ''/Help'' sender = handle_command ''/help'' sender"
proof -
  have s: "strip ''/HELP'' = ''/HELP''" "strip ''/Help'' = ''/Help''"
    by (simp_all add: strip_def isspace_def)
  have a: "handle_slash_command w sender ''/HELP'' st =
     Inr (send_whatsapp_text sender ''Unknown command. Type /help'' st)"
    unfolding handle_slash_command_def Let_def s by (simp add: startswith_def)
  have b: "handle_slash_command w sender ''/Help'' st =
     Inr (send_whatsapp_text sender ''Unknown command. Type /help'' st)"
    unfolding handle_slash_command_def Let_def s by (simp add: startswith_def)
  have c: "handle_slash_command w sender ''/help'' st =
          Inr (send_whatsapp_text sender
                (''JOTHI Commands (Teacher):\<newline>/bellmode - Bell options\<newline>'' @
                 ''/assembly - Assembly playback\<newline>/about - About us'') st)"
    if "get_role st sender = ''teacher''"
    unfolding handle_slash_command_def Let_def strip_help using that
    by (simp add: help_reply_def)
  have d: "handle_command ''/HELP'' sender = handle_command ''/help'' sender"
    by (rule handle_command_lower) (simp add: lower_HELP)
  have e: "handle_command ''/Help'' sender = handle_command ''/help'' sender"
    by (rule handle_command_lower) (simp add: lower_HELP)
  from a b c d e show ?thesis by blast
qed

theorem command_name_is_case_sensitive_witness:
  "handle_slash_command (world_at 1000) ''+919812345678'' ''/HELP'' school_state
     = Inr (send_whatsapp_text ''+919812345678'' ''Unknown command. Type /help'' school_state)
   \<and> handle_slash_command (world_at 1000) ''+919812345678'' ''/help'' school_state
     = Inr (send_whatsapp_text ''+919812345678''
             (''JOTHI Commands (Teacher):\<newline>/bellmode - Bell options\<newline>'' @
              ''/assembly - Assembly playback\<newline>/about - About us'') school_state)"
  using command_name_is_case_sensitive
          [of "world_at 1000" "''+919812345678''" school_state]
        teacher_example
  by blast

end
